theory Spec2Isabelle
  imports Main "HOL-Library.Word"
begin

section \<open>Platform: C types and constants of zcount.c\<close>

text \<open>
  zcount.c is a GNU/Linux program (it is built on glibc's argp). The model fixes the
  x86-64 GNU/Linux ABI: \<open>unsigned long\<close> has 64 bits, \<open>int\<close> has 32 bits and plain
  \<open>char\<close> is a signed 8-bit type. A byte of a file is an \<open>8 word\<close>; an open stream is the
  list of the bytes not read yet.
\<close>

type_synonym byte = "8 word"
type_synonym ulong = "64 word"
type_synonym FILE = "byte list"

definition ULONG_MAX :: ulong where
  "ULONG_MAX = 0xFFFFFFFFFFFFFFFF"

definition INT_MAX :: int where
  "INT_MAX = 2147483647"

definition EOF :: int where
  "EOF = - 1"

text \<open>
  \<open>getc\<close> of the C library: the next byte as an \<open>unsigned char\<close> converted to \<open>int\<close>
  (0..255), or \<open>EOF\<close> at the end of the stream, where the stream stays.
\<close>

definition getc :: "FILE \<Rightarrow> int \<times> FILE" where
  "getc fp = (case fp of [] \<Rightarrow> (EOF, []) | b # bs \<Rightarrow> (uint b, bs))"

section \<open>The byte counter \<open>countZB\<close> (zcount.c, lines 35-47)\<close>

text \<open>
  The loop \<open>while ((c = getc(fp)) != EOF && zeros < upper && zeros < ULONG_MAX)\<close>.
  The condition calls \<open>getc\<close> first, on every evaluation, and stores the result in the
  \<open>char c\<close>: the \<open>int\<close> is cut to 8 bits, and in the comparison with \<open>EOF\<close> the \<open>char\<close> is
  sign-extended again. The body is \<open>if (c == '\0') zeros++\<close>. The function returns the
  count together with the stream as it leaves it.
\<close>

function countZB_loop :: "FILE \<Rightarrow> ulong \<Rightarrow> ulong \<Rightarrow> ulong \<times> FILE" where
  "countZB_loop fp upper zeros =
     (let (r, fp') = getc fp;
          c = (word_of_int r :: 8 word)
      in if sint c \<noteq> EOF \<and> zeros < upper \<and> zeros < ULONG_MAX
         then countZB_loop fp' upper (if c = 0 then zeros + 1 else zeros)
         else (zeros, fp'))"
  by pat_completeness auto
termination
  apply (relation "measure (\<lambda>(fp, upper, zeros). length fp)")
   apply simp
  apply (auto simp: getc_def EOF_def split: list.splits)
  done

declare countZB_loop.simps [simp del]

definition countZB :: "FILE \<Rightarrow> ulong \<Rightarrow> ulong \<times> FILE" where
  "countZB fp upper =
     (let upper = (if upper = 0 then ULONG_MAX else upper)
      in countZB_loop fp upper 0)"

text \<open>The number of zero-valued bytes of a byte sequence, as a mathematical number.\<close>

definition zero_bytes :: "byte list \<Rightarrow> nat" where
  "zero_bytes bs = length (filter (\<lambda>b. b = 0) bs)"

section \<open>Library functions used by the argument parser\<close>

text \<open>
  \<open>strtoul(nptr, &tail, 0)\<close> of the C library, which zcount.c calls on the value of
  \<open>-u\<close> and \<open>-l\<close>; it is not code of zcount. Modelled from ISO C 7.22.1.4 and the glibc
  implementation: white space is skipped, then an optional sign, then with base 0 the
  prefix decides the base (\<open>0x\<close>/\<open>0X\<close> hexadecimal, a leading \<open>0\<close> octal, decimal
  otherwise), then the longest run of digits of that base is converted. The result is
  the value and the unconverted tail. With no digit at all nothing is converted: the
  value is 0 and the tail is the whole string (for \<open>0x\<close> without a hexadecimal digit
  the \<open>0\<close> alone is converted and the tail starts at the \<open>x\<close>). A value beyond
  \<open>ULONG_MAX\<close> gives \<open>ULONG_MAX\<close>; a minus sign negates the value in \<open>unsigned long\<close>.
  A C string holds no NUL, so the test \<open>**tailptr != '\0'\<close> is \<open>tail \<noteq> []\<close>.
\<close>

definition isspace :: "char \<Rightarrow> bool" where
  "isspace c = (c \<in> set [CHR '' '', CHR 0x09, CHR 0x0A, CHR 0x0B, CHR 0x0C, CHR 0x0D])"

definition digit_val :: "char \<Rightarrow> nat option" where
  "digit_val c =
     (let n = (of_char c :: nat)
      in if 48 \<le> n \<and> n \<le> 57 then Some (n - 48)
         else if 97 \<le> n \<and> n \<le> 122 then Some (n - 87)
         else if 65 \<le> n \<and> n \<le> 90 then Some (n - 55)
         else None)"

fun digits :: "nat \<Rightarrow> string \<Rightarrow> int \<Rightarrow> int \<times> string" where
  "digits base [] acc = (acc, [])"
| "digits base (c # cs) acc =
     (case digit_val c of
        None \<Rightarrow> (acc, c # cs)
      | Some d \<Rightarrow> if d < base then digits base cs (acc * int base + int d) else (acc, c # cs))"

definition strtoul :: "string \<Rightarrow> ulong \<times> string" where
  "strtoul nptr =
     (let s = dropWhile isspace nptr;
          (negative, s) =
            (case s of
               [] \<Rightarrow> (False, s)
             | c # cs \<Rightarrow> if c = CHR ''-'' then (True, cs)
                         else if c = CHR ''+'' then (False, cs)
                         else (False, s));
          (base, save) =
            (case s of
               [] \<Rightarrow> (10, s)
             | c # cs \<Rightarrow>
                 if c = CHR ''0'' then
                   (case cs of
                      [] \<Rightarrow> (8, s)
                    | x # cs' \<Rightarrow> if x = CHR ''x'' \<or> x = CHR ''X'' then (16, cs') else (8, s))
                 else (10, s));
          (i, endp) = digits base save 0
      in if length endp = length save then
           (if base = 16 then (0, tl s) else (0, nptr))
         else if 2 ^ 64 \<le> i then (ULONG_MAX, endp)
         else (if negative then - word_of_int i else word_of_int i, endp))"

text \<open>The conversion \<open>%lu\<close> of \<open>fprintf\<close>: an \<open>unsigned long\<close> in decimal.\<close>

function decimal :: "int \<Rightarrow> string" where
  "decimal n =
     (if n < 10 then [''0123456789'' ! nat n]
      else decimal (n div 10) @ [''0123456789'' ! nat (n mod 10)])"
  by pat_completeness auto
termination
  by (relation "measure nat") auto

declare decimal.simps [simp del]

definition lu :: "ulong \<Rightarrow> string" where
  "lu n = decimal (uint n)"

section \<open>The run configuration and the process state\<close>

text \<open>\<open>struct arguments\<close> (lines 73-78); \<open>retcode\<close> is the spec's \<open>flagged_count\<close>.\<close>

record arguments =
  verbosity :: int
  upper :: ulong
  lower :: ulong
  retcode :: int

text \<open>
  What \<open>parse_opt\<close> reads and writes besides its parameters: the \<open>struct arguments\<close>
  that \<open>state->input\<close> points to, the unread part of standard input, and what has been
  written to standard output and to the error stream.
\<close>

record world =
  input :: arguments
  stdin :: FILE
  stdout :: string
  stderr :: string

text \<open>
  The operating system as \<open>parse_opt\<close> sees it: \<open>fopen(name, "r")\<close> gives the bytes of
  the file or fails with an \<open>errno\<close>, and \<open>strerror\<close> describes an \<open>errno\<close>.
\<close>

record os =
  fopen :: "string \<Rightarrow> nat + FILE"
  strerror :: "nat \<Rightarrow> string"

text \<open>Keys and error codes of \<open><argp.h>\<close> and \<open><errno.h>\<close> (glibc's values).\<close>

definition ARGP_KEY_ARG :: int where "ARGP_KEY_ARG = 0"
definition ARGP_KEY_END :: int where "ARGP_KEY_END = 0x1000001"
definition ARGP_KEY_NO_ARGS :: int where "ARGP_KEY_NO_ARGS = 0x1000002"
definition ARGP_KEY_INIT :: int where "ARGP_KEY_INIT = 0x1000003"
definition ARGP_KEY_SUCCESS :: int where "ARGP_KEY_SUCCESS = 0x1000004"
definition ARGP_KEY_ERROR :: int where "ARGP_KEY_ERROR = 0x1000005"
definition ARGP_KEY_FINI :: int where "ARGP_KEY_FINI = 0x1000007"
definition EINVAL :: int where "EINVAL = 22"
definition ARGP_ERR_UNKNOWN :: int where "ARGP_ERR_UNKNOWN = 7"

section \<open>The argument parser \<open>parse_opt\<close> (lines 93-205)\<close>

text \<open>The lines written by the \<open>fprintf\<close> calls, each with its newline.\<close>

definition msg_not_integer :: "string \<Rightarrow> string" where
  "msg_not_integer word =
     [CHR 0x27] @ word @ [CHR 0x27] @ '' is not a non-negative integer'' @ [CHR 0x0A]"

definition msg_file_corrupted :: "string \<Rightarrow> ulong \<Rightarrow> string" where
  "msg_file_corrupted arg zeros =
     arg @ '': seems corrupted, '' @ lu zeros @ '' zero-bytes counted'' @ [CHR 0x0A]"

definition msg_file_counted :: "string \<Rightarrow> ulong \<Rightarrow> string" where
  "msg_file_counted arg zeros =
     arg @ '': '' @ lu zeros @ '' zero-bytes counted'' @ [CHR 0x0A]"

definition msg_stdin_corrupted :: "ulong \<Rightarrow> string" where
  "msg_stdin_corrupted zeros =
     ''data in stdin seems corrupted, '' @ lu zeros @ '' zero-bytes counted'' @ [CHR 0x0A]"

definition msg_stdin_counted :: "ulong \<Rightarrow> string" where
  "msg_stdin_counted zeros = lu zeros @ '' zero-bytes in stdin counted'' @ [CHR 0x0A]"

definition msg_open_failed :: "os \<Rightarrow> string \<Rightarrow> nat \<Rightarrow> string" where
  "msg_open_failed sys arg errno = arg @ '': '' @ strerror sys errno @ [CHR 0x0A]"

definition msg_terminated :: string where
  "msg_terminated = ''Argument parsing has been terminated due to an error!'' @ [CHR 0x0A]"

text \<open>
  The three statements that follow the count, which the source has twice in the same
  words, for a file (lines 146-162) and for standard input (lines 173-189):
  the "small sanity check", the update of the "number of suspicious files", and the
  output "depending on verbosity", where only the two format strings differ.
\<close>

definition sanity_check :: "arguments \<Rightarrow> arguments" where
  "sanity_check a = (if upper a < lower a \<and> upper a \<noteq> 0 then a\<lparr>lower := upper a\<rparr> else a)"

definition update_suspicious :: "ulong \<Rightarrow> arguments \<Rightarrow> arguments" where
  "update_suspicious zeros a =
     (if zeros \<noteq> 0 \<and> retcode a < INT_MAX then a\<lparr>retcode := retcode a + 1\<rparr> else a)"

definition produce_output :: "(ulong \<Rightarrow> string) \<Rightarrow> (ulong \<Rightarrow> string) \<Rightarrow> ulong \<Rightarrow> world \<Rightarrow> world" where
  "produce_output corrupted counted zeros w =
     (let w1 = (if verbosity (input w) = 1 \<and> lower (input w) \<le> zeros
                then w\<lparr>stderr := stderr w @ corrupted zeros\<rparr> else w)
      in if 2 \<le> verbosity (input w1) then
           (if zeros < lower (input w1)
            then w1\<lparr>stdout := stdout w1 @ counted zeros\<rparr>
            else w1\<lparr>stderr := stderr w1 @ corrupted zeros\<rparr>)
         else w1)"

text \<open>
  \<open>parse_opt (key, arg, state)\<close>: the \<open>switch\<close> on the key, as a chain of tests on pairwise
  different constants. \<open>word\<close> is \<open>state->argv[state->next-1]\<close>, the command-line word the
  diagnostic of \<open>-u\<close> and \<open>-l\<close> quotes. The result is the returned \<open>error_t\<close> and the state
  the call leaves. \<open>strtoul\<close> stores into the field before the tail is tested, so a
  rejected value has been assigned, too.
\<close>

definition parse_opt :: "os \<Rightarrow> int \<Rightarrow> string \<Rightarrow> string \<Rightarrow> world \<Rightarrow> int \<times> world" where
  "parse_opt sys key arg word w =
     (if key = ARGP_KEY_INIT then
        (0, w\<lparr>input := (input w)\<lparr>verbosity := 0, upper := 0, lower := 1, retcode := 0\<rparr>\<rparr>)
      else if key = of_char (CHR ''v'') then
        (0, if verbosity (input w) < INT_MAX
            then w\<lparr>input := (input w)\<lparr>verbosity := verbosity (input w) + 1\<rparr>\<rparr>
            else w)
      else if key = of_char (CHR ''u'') then
        (let (v, tail) = strtoul arg;
             w1 = w\<lparr>input := (input w)\<lparr>upper := v\<rparr>\<rparr>
         in if tail \<noteq> []
            then (EINVAL, w1\<lparr>stderr := stderr w1 @ msg_not_integer word\<rparr>)
            else (0, w1))
      else if key = of_char (CHR ''l'') then
        (let (v, tail) = strtoul arg;
             w1 = w\<lparr>input := (input w)\<lparr>lower := v\<rparr>\<rparr>
         in if tail \<noteq> []
            then (EINVAL, w1\<lparr>stderr := stderr w1 @ msg_not_integer word\<rparr>)
            else (0, w1))
      else if key = ARGP_KEY_ARG then
        (case fopen sys arg of
           Inr fp \<Rightarrow>
             (let (zeros, fp') = countZB fp (upper (input w));
                  w1 = w\<lparr>input := sanity_check (input w)\<rparr>;
                  w2 = w1\<lparr>input := update_suspicious zeros (input w1)\<rparr>
              in (0, produce_output (msg_file_corrupted arg) (msg_file_counted arg) zeros w2))
         | Inl errno \<Rightarrow>
             (0, w\<lparr>stderr := stderr w @ msg_open_failed sys arg errno\<rparr>))
      else if key = ARGP_KEY_NO_ARGS then
        (let (zeros, fp') = countZB (stdin w) (upper (input w));
             w0 = w\<lparr>stdin := fp'\<rparr>;
             w1 = w0\<lparr>input := sanity_check (input w0)\<rparr>;
             w2 = w1\<lparr>input := update_suspicious zeros (input w1)\<rparr>
         in (0, produce_output msg_stdin_corrupted msg_stdin_counted zeros w2))
      else if key = ARGP_KEY_ERROR then
        (0, w\<lparr>stderr := stderr w @ msg_terminated\<rparr>)
      else (ARGP_ERR_UNKNOWN, w))"

section \<open>The driver: \<open>argp_parse\<close> and \<open>main\<close> (lines 211-221)\<close>

text \<open>
  \<open>argp_parse\<close> belongs to glibc, not to zcount. Modelled from the glibc manual
  (Argp Parser Functions, Argp Special Keys) for the call of line 217, with flags 0:
  the parser function is called with \<open>ARGP_KEY_INIT\<close>; then once for every option of the
  command line, in their order, options being moved before the other words; then with
  \<open>ARGP_KEY_ARG\<close> for every remaining word, in their order; with \<open>ARGP_KEY_NO_ARGS\<close> when
  there was none; then with \<open>ARGP_KEY_END\<close> and \<open>ARGP_KEY_SUCCESS\<close>. A call that
  returns an error other than \<open>ARGP_ERR_UNKNOWN\<close> ends the parsing: the parser function is
  called with \<open>ARGP_KEY_ERROR\<close>, and \<open>argp_parse\<close> returns that error to its caller. The
  last call has \<open>ARGP_KEY_FINI\<close>. The command line is taken as \<open>getopt\<close> has split it:
  the occurrences of the three options of the table of lines 81-90, each value with the
  command-line word that carried it, and the other words.
\<close>

datatype cmd_opt = Verbose | Upper string string | Lower string string

fun opt_key :: "cmd_opt \<Rightarrow> int" where
  "opt_key Verbose = of_char (CHR ''v'')"
| "opt_key (Upper v word) = of_char (CHR ''u'')"
| "opt_key (Lower v word) = of_char (CHR ''l'')"

fun opt_arg :: "cmd_opt \<Rightarrow> string" where
  "opt_arg Verbose = []"
| "opt_arg (Upper v word) = v"
| "opt_arg (Lower v word) = v"

fun opt_word :: "cmd_opt \<Rightarrow> string" where
  "opt_word Verbose = []"
| "opt_word (Upper v word) = word"
| "opt_word (Lower v word) = word"

fun parse_options :: "os \<Rightarrow> cmd_opt list \<Rightarrow> world \<Rightarrow> int \<times> world" where
  "parse_options sys [] w = (0, w)"
| "parse_options sys (opt # opts) w =
     (let (err, w') = parse_opt sys (opt_key opt) (opt_arg opt) (opt_word opt) w
      in if err \<noteq> 0 then (err, w') else parse_options sys opts w')"

fun parse_args :: "os \<Rightarrow> string list \<Rightarrow> world \<Rightarrow> int \<times> world" where
  "parse_args sys [] w = (0, w)"
| "parse_args sys (file # files) w =
     (let (err, w') = parse_opt sys ARGP_KEY_ARG file file w
      in if err \<noteq> 0 then (err, w') else parse_args sys files w')"

definition ignore_unknown :: "int \<times> world \<Rightarrow> int \<times> world" where
  "ignore_unknown r = (if fst r = ARGP_ERR_UNKNOWN then (0, snd r) else r)"

definition argp_parse :: "os \<Rightarrow> cmd_opt list \<Rightarrow> string list \<Rightarrow> world \<Rightarrow> int \<times> world" where
  "argp_parse sys opts files w =
     (let (err, w) = parse_opt sys ARGP_KEY_INIT [] [] w;
          (err, w) = parse_options sys opts w;
          (err, w) = (if err = 0 then parse_args sys files w else (err, w));
          (err, w) = (if err = 0 \<and> files = []
                      then ignore_unknown (parse_opt sys ARGP_KEY_NO_ARGS [] [] w) else (err, w));
          (err, w) = (if err = 0
                      then ignore_unknown (parse_opt sys ARGP_KEY_END [] [] w) else (err, w));
          (err, w) = (if err = 0
                      then ignore_unknown (parse_opt sys ARGP_KEY_SUCCESS [] [] w)
                      else (err, snd (parse_opt sys ARGP_KEY_ERROR [] [] w)));
          w = snd (parse_opt sys ARGP_KEY_FINI [] [] w)
      in (err, w))"

text \<open>
  \<open>main\<close>: the \<open>struct arguments\<close> is not initialised (whatever \<open>input w\<close> holds at the
  start), the result of \<open>argp_parse\<close> is dropped, and the exit code is \<open>retcode\<close>.
\<close>

definition main :: "os \<Rightarrow> cmd_opt list \<Rightarrow> string list \<Rightarrow> world \<Rightarrow> int \<times> world" where
  "main sys opts files w =
     (let (err, w') = argp_parse sys opts files w
      in (retcode (input w'), w'))"

text \<open>
  The test of lines 121 and 132 on an option of the command line: the value of \<open>-u\<close>
  or \<open>-l\<close> leaves a tail that \<open>strtoul\<close> did not convert.
\<close>

fun rejected :: "cmd_opt \<Rightarrow> bool" where
  "rejected Verbose = False"
| "rejected (Upper v word) = (snd (strtoul v) \<noteq> [])"
| "rejected (Lower v word) = (snd (strtoul v) \<noteq> [])"

section \<open>A sample system\<close>

text \<open>
  Four files and a starting state, for the concrete runs below: \<open>clean\<close> holds no zero
  byte, \<open>one\<close>, \<open>three\<close> and \<open>five\<close> hold that many; no other file exists
  (\<open>errno\<close> 2, \<open>ENOENT\<close>). Standard input is empty.
\<close>

definition demo_os :: os where
  "demo_os =
     \<lparr>fopen = (\<lambda>name.
         if name = ''clean'' then Inr [0x61, 0x62, 0x0A]
         else if name = ''one'' then Inr [0x00]
         else if name = ''three'' then Inr [0x00, 0x01, 0x00, 0x02, 0x00]
         else if name = ''five'' then Inr [0x00, 0x00, 0x00, 0x00, 0x00]
         else Inl 2),
      strerror = (\<lambda>errno. if errno = 2 then ''No such file or directory''
                           else ''Unknown error'')\<rparr>"

definition demo_world :: world where
  "demo_world =
     \<lparr>input = \<lparr>verbosity = 2, upper = 0, lower = 1, retcode = 0\<rparr>,
      stdin = [], stdout = [], stderr = []\<rparr>"

text \<open>
  Two more files, which hold the byte 0xFF before their zero bytes: \<open>ff3\<close> is
  FF 00 00 00 and \<open>ff5\<close> is FF 00 00 00 00 00.
\<close>

definition demo_os_ff :: os where
  "demo_os_ff =
     \<lparr>fopen = (\<lambda>name.
         if name = ''ff3'' then Inr [0xFF, 0x00, 0x00, 0x00]
         else if name = ''ff5'' then Inr [0xFF, 0x00, 0x00, 0x00, 0x00, 0x00]
         else Inl 2),
      strerror = (\<lambda>errno. if errno = 2 then ''No such file or directory''
                           else ''Unknown error'')\<rparr>"

section \<open>The loop, one byte at a time\<close>

lemma sint_char_EOF: "sint (b :: 8 word) = EOF \<longleftrightarrow> b = 255"
proof -
  have "b = - 1 \<longleftrightarrow> sint b = sint (- 1 :: 8 word)"
    by (rule word_eq_iff_signed)
  then have "b = - 1 \<longleftrightarrow> sint b = - 1"
    by simp
  moreover have "(255 :: 8 word) = - 1"
    by simp
  ultimately show ?thesis
    unfolding EOF_def by metis
qed

lemma countZB_loop_Nil [simp]: "countZB_loop [] cap z = (z, [])"
  by (simp add: countZB_loop.simps [of "[]"] getc_def EOF_def)

lemma countZB_loop_Cons [simp]:
  "countZB_loop (b # bs) cap z =
     (if b \<noteq> 255 \<and> z < cap \<and> z < ULONG_MAX
      then countZB_loop bs cap (if b = 0 then z + 1 else z)
      else (z, bs))"
  by (simp add: countZB_loop.simps [of "b # bs"] getc_def sint_char_EOF)

lemma zero_bytes_Nil [simp]: "zero_bytes [] = 0"
  by (simp add: zero_bytes_def)

lemma zero_bytes_Cons [simp]:
  "zero_bytes (b # bs) = (if b = 0 then Suc (zero_bytes bs) else zero_bytes bs)"
  by (simp add: zero_bytes_def)

lemma unat_inc: "z < ULONG_MAX \<Longrightarrow> unat (z + 1) = Suc (unat z)"
proof -
  assume "z < ULONG_MAX"
  then have "unat z < 18446744073709551615"
    by (simp add: ULONG_MAX_def word_less_nat_alt)
  then show ?thesis
    by (simp add: unat_word_ariths)
qed

lemma inc_le_cap: "(z :: ulong) < cap \<Longrightarrow> z + 1 \<le> cap"
  by (simp add: inc_le)

lemma countZB_loop_le: "z0 \<le> cap \<Longrightarrow> fst (countZB_loop S cap z0) \<le> cap"
  by (induction S arbitrary: z0) (auto simp: inc_le_cap)

lemma countZB_loop_count_le:
  "unat (fst (countZB_loop S cap z0)) \<le> unat z0 + zero_bytes S"
proof (induction S arbitrary: z0)
  case Nil
  then show ?case by simp
next
  case (Cons b bs)
  show ?case
    using Cons.IH [of "z0 + 1"] Cons.IH [of z0]
    by (auto simp: unat_inc)
qed

lemma countZB_loop_consumed:
  "z0 \<le> cap \<Longrightarrow>
   \<exists>P. S = P @ snd (countZB_loop S cap z0) \<and>
       (\<forall>n. unat cap \<le> unat z0 + zero_bytes (take n S) \<longrightarrow> length P \<le> n + 1)"
proof (induction S arbitrary: z0)
  case Nil
  then show ?case by simp
next
  case (Cons b bs)
  show ?case
  proof (cases "b \<noteq> 255 \<and> z0 < cap \<and> z0 < ULONG_MAX")
    case True
    define z1 where "z1 = (if b = 0 then z0 + 1 else z0)"
    have z1: "z1 \<le> cap" "unat z1 = unat z0 + zero_bytes [b]"
      using True by (auto simp: z1_def inc_le_cap unat_inc)
    from Cons.IH [OF z1(1)] obtain P where
      P: "bs = P @ snd (countZB_loop bs cap z1)"
         "\<And>n. unat cap \<le> unat z1 + zero_bytes (take n bs) \<Longrightarrow> length P \<le> n + 1"
      by blast
    have res: "countZB_loop (b # bs) cap z0 = countZB_loop bs cap z1"
      using True by (simp add: z1_def)
    have "length (b # P) \<le> n + 1"
      if "unat cap \<le> unat z0 + zero_bytes (take n (b # bs))" for n
    proof (cases n)
      case 0
      with that True show ?thesis by (simp add: word_less_nat_alt)
    next
      case (Suc m)
      with that z1(2) have "unat cap \<le> unat z1 + zero_bytes (take m bs)"
        by (auto split: if_splits)
      from P(2) [OF this] Suc show ?thesis by simp
    qed
    moreover have "b # bs = (b # P) @ snd (countZB_loop (b # bs) cap z0)"
      using P(1) res by simp
    ultimately show ?thesis by blast
  next
    case False
    then have "countZB_loop (b # bs) cap z0 = (z0, bs)" by auto
    then have "b # bs = [b] @ snd (countZB_loop (b # bs) cap z0)
               \<and> (\<forall>n. length [b] \<le> n + 1)"
      by simp
    then show ?thesis by blast
  qed
qed

lemma countZB_loop_exact:
  "255 \<notin> set S \<Longrightarrow> unat z0 + zero_bytes S < 2 ^ 64 - 1 \<Longrightarrow>
   countZB_loop S ULONG_MAX z0 = (z0 + of_nat (zero_bytes S), [])"
proof (induction S arbitrary: z0)
  case Nil
  then show ?case by simp
next
  case (Cons b bs)
  have lt: "z0 < ULONG_MAX"
    using Cons.prems(2) by (simp add: ULONG_MAX_def word_less_nat_alt)
  show ?case
  proof (cases "b = 0")
    case True
    with Cons.prems lt have "unat (z0 + 1) + zero_bytes bs < 2 ^ 64 - 1"
      by (simp add: unat_inc)
    with Cons.IH [of "z0 + 1"] Cons.prems lt True show ?thesis
      by (simp add: add.assoc)
  next
    case False
    with Cons.IH [of z0] Cons.prems lt show ?thesis by simp
  qed
qed

lemma countZB_no_zero_bytes: "zero_bytes fp = 0 \<Longrightarrow> fst (countZB fp cap) = 0"
proof -
  assume "zero_bytes fp = 0"
  with countZB_loop_count_le [of fp "if cap = 0 then ULONG_MAX else cap" 0]
  have "unat (fst (countZB fp cap)) = 0"
    by (simp add: countZB_def)
  then show ?thesis
    by (simp add: unat_eq_0)
qed

section \<open>The byte counter: what it returns and how far it reads\<close>

text \<open>
  Without a cap (\<open>upper = 0\<close>), a stream that holds no byte 0xFF and fewer than
  \<open>ULONG_MAX\<close> zero bytes is read to its end, and the result is the number of its zero
  bytes.
\<close>

lemma countZB_unlimited_exact:
  assumes "255 \<notin> set S" and "zero_bytes S < 2 ^ 64 - 1"
  shows "countZB S 0 = (of_nat (zero_bytes S), [])"
  using countZB_loop_exact [of S 0] assms by (simp add: countZB_def)

text \<open>
  Claim C3: for every byte stream S, \<open>countZB\<close> with cap 0 reads S to the end of the
  stream and returns exactly the number of zero bytes of S. The code does not: the byte
  read is stored in a \<open>char\<close>, so the byte 0xFF compares equal to \<open>EOF\<close> and ends the loop.
  On the stream 0xFF 0x00 the function returns 0 and leaves the zero byte unread, while
  the stream holds one zero byte.
\<close>

theorem countZB_stops_at_byte_0xFF:
  "countZB [0xFF, 0x00] 0 = (0, [0x00]) \<and> zero_bytes [0xFF, 0x00] = 1"
  by (simp add: countZB_def ULONG_MAX_def)

text \<open>
  Claim C4 as stated: with a cap C > 0 the result is at most C, and no byte past the
  point where the count reaches C is consumed. The second half fails: on the stream
  0x00 0x41 0x42 with cap 1 the count reaches 1 with the first byte, and the function
  consumes two bytes, since the loop condition calls \<open>getc\<close> before it tests the cap.
\<close>

theorem countZB_reads_one_byte_past_cap:
  "countZB [0x00, 0x41, 0x42] 1 = (1, [0x42]) \<and>
   zero_bytes (take 1 [0x00, 0x41, 0x42]) = 1 \<and>
   length [0x00, 0x41, 0x42 :: byte] - length [0x42 :: byte] = 2"
  by (simp add: countZB_def ULONG_MAX_def)

text \<open>
  Claim C4, amended: with a cap C > 0 the result is at most C, and the function
  consumes a prefix P of the stream that ends at most one byte after the count has
  reached C: whenever the first n bytes of S hold at least C zero bytes, P has at most
  n + 1 bytes.
\<close>

theorem countZB_cap_bounds_count_and_reading:
  assumes "0 < C"
  shows "fst (countZB S C) \<le> C \<and>
         (\<exists>P. S = P @ snd (countZB S C) \<and>
              (\<forall>n. unat C \<le> zero_bytes (take n S) \<longrightarrow> length P \<le> n + 1))"
proof -
  from assms have C: "C \<noteq> 0" by auto
  have "fst (countZB_loop S C 0) \<le> C"
    by (rule countZB_loop_le) simp
  moreover have "\<exists>P. S = P @ snd (countZB_loop S C 0) \<and>
      (\<forall>n. unat C \<le> unat (0 :: ulong) + zero_bytes (take n S) \<longrightarrow> length P \<le> n + 1)"
    by (rule countZB_loop_consumed) simp
  ultimately show ?thesis
    using C by (simp add: countZB_def)
qed

theorem countZB_cap_bounds_count_and_reading_witness:
  "0 < (1 :: ulong) \<and> fst (countZB [0x00, 0x41, 0x42] 1) \<le> 1 \<and>
   (\<exists>P. [0x00, 0x41, 0x42] = P @ snd (countZB [0x00, 0x41, 0x42] 1) \<and>
        (\<forall>n. unat (1 :: ulong) \<le> zero_bytes (take n [0x00, 0x41, 0x42]) \<longrightarrow>
             length P \<le> n + 1))"
  using countZB_cap_bounds_count_and_reading [of 1 "[0x00, 0x41, 0x42]"] by simp

text \<open>
  A stream without a byte 0xFF is counted as the comment of lines 32-34 says: the
  result is the number of its zero bytes, or the cap when the stream holds at least
  that many.
\<close>

lemma lt_cap_lt_max: "(z :: ulong) < cap \<Longrightarrow> z < ULONG_MAX"
proof -
  assume "z < cap"
  moreover have "unat cap < 2 ^ 64"
    using unsigned_less [of cap, where 'a = nat] by simp
  ultimately show ?thesis
    by (simp add: ULONG_MAX_def word_less_nat_alt)
qed

lemma countZB_loop_no_FF:
  "255 \<notin> set S \<Longrightarrow> z0 \<le> cap \<Longrightarrow>
   unat (fst (countZB_loop S cap z0)) = min (unat cap) (unat z0 + zero_bytes S)"
proof (induction S arbitrary: z0)
  case Nil
  then show ?case by (simp add: word_le_nat_alt)
next
  case (Cons b bs)
  show ?case
  proof (cases "z0 < cap")
    case True
    then have max: "z0 < ULONG_MAX" by (rule lt_cap_lt_max)
    define z1 where "z1 = (if b = 0 then z0 + 1 else z0)"
    have z1: "z1 \<le> cap" "unat z1 = unat z0 + zero_bytes [b]"
      using True max by (auto simp: z1_def inc_le_cap unat_inc)
    have "countZB_loop (b # bs) cap z0 = countZB_loop bs cap z1"
      using True max Cons.prems(1) by (simp add: z1_def)
    moreover have "unat (fst (countZB_loop bs cap z1)) = min (unat cap) (unat z1 + zero_bytes bs)"
      using Cons.IH [OF _ z1(1)] Cons.prems(1) by simp
    ultimately show ?thesis
      using z1(2) by (auto split: if_splits)
  next
    case False
    with Cons.prems(2) have "z0 = cap" by simp
    then show ?thesis by simp
  qed
qed

lemma countZB_no_FF:
  assumes "255 \<notin> set fp"
  shows "unat (fst (countZB fp cap)) =
           min (unat (if cap = 0 then ULONG_MAX else cap)) (zero_bytes fp)"
  using countZB_loop_no_FF [OF assms, of 0 "if cap = 0 then ULONG_MAX else cap"]
  by (simp add: countZB_def)

lemma countZB_no_FF_cap_reached:
  assumes "255 \<notin> set fp" and "cap \<noteq> 0" and "unat cap \<le> zero_bytes fp"
  shows "fst (countZB fp cap) = cap"
proof -
  have "unat (fst (countZB fp cap)) = unat cap"
    using countZB_no_FF [OF assms(1), of cap] assms(2,3) by simp
  then show ?thesis by (simp add: word_unat_eq_iff)
qed

lemma countZB_no_FF_unlimited:
  assumes "255 \<notin> set fp" and "zero_bytes fp < 2 ^ 64 - 1"
  shows "fst (countZB fp 0) = of_nat (zero_bytes fp)"
  using countZB_unlimited_exact [OF assms] by simp

section \<open>\<open>parse_opt\<close>, key by key\<close>

lemmas argp_keys =
  ARGP_KEY_ARG_def ARGP_KEY_END_def ARGP_KEY_NO_ARGS_def ARGP_KEY_INIT_def
  ARGP_KEY_SUCCESS_def ARGP_KEY_ERROR_def ARGP_KEY_FINI_def

lemma parse_opt_INIT:
  "parse_opt sys ARGP_KEY_INIT arg word w =
     (0, w\<lparr>input := (input w)\<lparr>verbosity := 0, upper := 0, lower := 1, retcode := 0\<rparr>\<rparr>)"
  by (simp add: parse_opt_def)

lemma parse_opt_v:
  "key = of_char (CHR ''v'') \<Longrightarrow>
   parse_opt sys key arg word w =
     (0, if verbosity (input w) < INT_MAX
         then w\<lparr>input := (input w)\<lparr>verbosity := verbosity (input w) + 1\<rparr>\<rparr> else w)"
  by (simp add: parse_opt_def argp_keys)

lemma parse_opt_u:
  "key = of_char (CHR ''u'') \<Longrightarrow>
   parse_opt sys key arg word w =
     (if snd (strtoul arg) \<noteq> []
      then (EINVAL, w\<lparr>input := (input w)\<lparr>upper := fst (strtoul arg)\<rparr>,
                      stderr := stderr w @ msg_not_integer word\<rparr>)
      else (0, w\<lparr>input := (input w)\<lparr>upper := fst (strtoul arg)\<rparr>\<rparr>))"
  by (simp add: parse_opt_def argp_keys split: prod.splits)

lemma parse_opt_l:
  "key = of_char (CHR ''l'') \<Longrightarrow>
   parse_opt sys key arg word w =
     (if snd (strtoul arg) \<noteq> []
      then (EINVAL, w\<lparr>input := (input w)\<lparr>lower := fst (strtoul arg)\<rparr>,
                      stderr := stderr w @ msg_not_integer word\<rparr>)
      else (0, w\<lparr>input := (input w)\<lparr>lower := fst (strtoul arg)\<rparr>\<rparr>))"
  by (simp add: parse_opt_def argp_keys split: prod.splits)

lemma parse_opt_ARG_opened:
  "fopen sys arg = Inr fp \<Longrightarrow>
   parse_opt sys ARGP_KEY_ARG arg word w =
     (0, produce_output (msg_file_corrupted arg) (msg_file_counted arg)
           (fst (countZB fp (upper (input w))))
           (w\<lparr>input := update_suspicious (fst (countZB fp (upper (input w))))
                         (sanity_check (input w))\<rparr>))"
  by (simp add: parse_opt_def argp_keys split: prod.splits)

lemma parse_opt_ARG_failed:
  "fopen sys arg = Inl errno \<Longrightarrow>
   parse_opt sys ARGP_KEY_ARG arg word w =
     (0, w\<lparr>stderr := stderr w @ msg_open_failed sys arg errno\<rparr>)"
  by (simp add: parse_opt_def argp_keys)

lemma parse_opt_NO_ARGS:
  "parse_opt sys ARGP_KEY_NO_ARGS arg word w =
     (0, produce_output msg_stdin_corrupted msg_stdin_counted
           (fst (countZB (stdin w) (upper (input w))))
           (w\<lparr>stdin := snd (countZB (stdin w) (upper (input w))),
              input := update_suspicious (fst (countZB (stdin w) (upper (input w))))
                         (sanity_check (input w))\<rparr>))"
  by (simp add: parse_opt_def argp_keys split: prod.splits)

lemma parse_opt_ERROR:
  "parse_opt sys ARGP_KEY_ERROR arg word w = (0, w\<lparr>stderr := stderr w @ msg_terminated\<rparr>)"
  by (simp add: parse_opt_def argp_keys)

lemma parse_opt_unhandled:
  "key \<in> {ARGP_KEY_END, ARGP_KEY_SUCCESS, ARGP_KEY_FINI} \<Longrightarrow>
   parse_opt sys key arg word w = (ARGP_ERR_UNKNOWN, w)"
  by (auto simp add: parse_opt_def argp_keys)

section \<open>The three statements after the count\<close>

lemma sanity_check_fields [simp]:
  "verbosity (sanity_check a) = verbosity a"
  "upper (sanity_check a) = upper a"
  "retcode (sanity_check a) = retcode a"
  "lower (sanity_check a) = (if upper a < lower a \<and> upper a \<noteq> 0 then upper a else lower a)"
  by (simp_all add: sanity_check_def)

lemma update_suspicious_fields [simp]:
  "verbosity (update_suspicious zeros a) = verbosity a"
  "upper (update_suspicious zeros a) = upper a"
  "lower (update_suspicious zeros a) = lower a"
  "retcode (update_suspicious zeros a) =
     (if zeros \<noteq> 0 \<and> retcode a < INT_MAX then retcode a + 1 else retcode a)"
  by (simp_all add: update_suspicious_def)

lemma produce_output_fields [simp]:
  "input (produce_output corrupted counted zeros w) = input w"
  "stdin (produce_output corrupted counted zeros w) = stdin w"
  by (simp_all add: produce_output_def Let_def)

lemma produce_output_streams:
  "stdout (produce_output corrupted counted zeros w) =
     (if 2 \<le> verbosity (input w) \<and> zeros < lower (input w)
      then stdout w @ counted zeros else stdout w)"
  "stderr (produce_output corrupted counted zeros w) =
     (if 1 \<le> verbosity (input w) \<and> lower (input w) \<le> zeros
      then stderr w @ corrupted zeros else stderr w)"
  by (auto simp add: produce_output_def Let_def)

lemma lu_small: "lu 0 = ''0''" "lu 3 = ''3''" "lu 5 = ''5''"
  by (simp_all add: lu_def decimal.simps)

lemma strtoul_examples:
  "strtoul ''12ab'' = (12, ''ab'')" "strtoul ''0x1F'' = (31, [])"
  by (simp_all add: strtoul_def isspace_def digit_val_def)

lemmas demo_simps =
  demo_os_def demo_world_def countZB_def ULONG_MAX_def INT_MAX_def EINVAL_def

section \<open>Classification of a source\<close>

text \<open>
  Claim C2: in the classification of a source, \<open>retcode\<close> (the spec's
  \<open>flagged_count\<close>) is incremented exactly when the count of zero bytes is not 0 and
  \<open>retcode\<close> is below \<open>INT_MAX\<close>, whatever \<open>lower\<close> is. This holds for a file that
  opens and for standard input: the new \<open>retcode\<close> is a function of the count and of the
  old \<open>retcode\<close>, and a different \<open>lower\<close> in the starting state gives the same
  \<open>retcode\<close>.
\<close>

theorem retcode_incremented_iff_zeros_nonzero:
  assumes "key = ARGP_KEY_ARG \<and> fopen sys arg = Inr fp \<or>
           key = ARGP_KEY_NO_ARGS \<and> stdin w = fp"
  shows "retcode (input (snd (parse_opt sys key arg word w))) =
           (if fst (countZB fp (upper (input w))) \<noteq> 0 \<and> retcode (input w) < INT_MAX
            then retcode (input w) + 1 else retcode (input w)) \<and>
         retcode (input (snd (parse_opt sys key arg word (w\<lparr>input := (input w)\<lparr>lower := l\<rparr>\<rparr>)))) =
           retcode (input (snd (parse_opt sys key arg word w)))"
  using assms by (auto simp: parse_opt_ARG_opened parse_opt_NO_ARGS)

text \<open>
  The theorem of claim C2 at the file \<open>one\<close>, with \<open>lower = 1\<close> and with
  \<open>lower = 9\<close>: \<open>retcode\<close> goes from 0 to 1 both times.
\<close>

theorem retcode_incremented_iff_zeros_nonzero_witness:
  "(ARGP_KEY_ARG = ARGP_KEY_ARG \<and> fopen demo_os ''one'' = Inr [0x00] \<or>
    ARGP_KEY_ARG = ARGP_KEY_NO_ARGS \<and> stdin demo_world = [0x00]) \<and>
   retcode (input demo_world) = 0 \<and>
   retcode (input (snd (parse_opt demo_os ARGP_KEY_ARG ''one'' [] demo_world))) = 1 \<and>
   retcode (input (snd (parse_opt demo_os ARGP_KEY_ARG ''one'' []
      (demo_world\<lparr>input := (input demo_world)\<lparr>lower := 9\<rparr>\<rparr>)))) = 1"
proof -
  have h: "ARGP_KEY_ARG = ARGP_KEY_ARG \<and> fopen demo_os ''one'' = Inr [0x00] \<or>
           ARGP_KEY_ARG = ARGP_KEY_NO_ARGS \<and> stdin demo_world = [0x00]"
    by (simp add: demo_os_def)
  from retcode_incremented_iff_zeros_nonzero [OF h, of "[]" 9] h show ?thesis
    by (simp add: demo_simps)
qed

text \<open>
  The clamp of lines 146-148 and 173-175: for a file that opens and for standard
  input alike, \<open>lower\<close> is set to \<open>upper\<close> when \<open>lower > upper\<close> and \<open>upper \<noteq> 0\<close>, and
  \<open>upper\<close> is kept, so after the step \<open>lower \<le> upper\<close> or \<open>upper = 0\<close>.
\<close>

lemma clamp_before_each_classification:
  assumes "key = ARGP_KEY_ARG \<and> fopen sys arg = Inr fp \<or> key = ARGP_KEY_NO_ARGS"
  shows "upper (input (snd (parse_opt sys key arg word w))) = upper (input w) \<and>
         lower (input (snd (parse_opt sys key arg word w))) =
           (if upper (input w) < lower (input w) \<and> upper (input w) \<noteq> 0
            then upper (input w) else lower (input w)) \<and>
         (lower (input (snd (parse_opt sys key arg word w)))
            \<le> upper (input (snd (parse_opt sys key arg word w))) \<or>
          upper (input (snd (parse_opt sys key arg word w))) = 0)"
  using assms by (auto simp: parse_opt_ARG_opened parse_opt_NO_ARGS)

text \<open>
  With \<open>upper = 5\<close> and \<open>lower = 10\<close>, a source without a byte 0xFF that holds five
  zero bytes (or more: the count stops at 5) is taken as corrupted, as a file and as
  standard input: \<open>lower\<close> becomes 5, at verbosity 1 and above the "seems corrupted"
  line with the count 5 goes to the error stream, nothing goes to standard output, and
  \<open>retcode\<close> is incremented.
\<close>

lemma five_zero_bytes_without_0xFF_classified_corrupted:
  assumes "255 \<notin> set fp" and "5 \<le> zero_bytes fp"
    and "upper (input w) = 5" and "lower (input w) = 10" and "1 \<le> verbosity (input w)"
  shows "(fopen sys arg = Inr fp \<longrightarrow>
            lower (input (snd (parse_opt sys ARGP_KEY_ARG arg word w))) = 5 \<and>
            stderr (snd (parse_opt sys ARGP_KEY_ARG arg word w)) =
              stderr w @ arg @ '': seems corrupted, 5 zero-bytes counted'' @ [CHR 0x0A] \<and>
            stdout (snd (parse_opt sys ARGP_KEY_ARG arg word w)) = stdout w \<and>
            retcode (input (snd (parse_opt sys ARGP_KEY_ARG arg word w))) =
              (if retcode (input w) < INT_MAX then retcode (input w) + 1
               else retcode (input w))) \<and>
         (stdin w = fp \<longrightarrow>
            lower (input (snd (parse_opt sys ARGP_KEY_NO_ARGS arg word w))) = 5 \<and>
            stderr (snd (parse_opt sys ARGP_KEY_NO_ARGS arg word w)) =
              stderr w @ ''data in stdin seems corrupted, 5 zero-bytes counted'' @ [CHR 0x0A] \<and>
            stdout (snd (parse_opt sys ARGP_KEY_NO_ARGS arg word w)) = stdout w \<and>
            retcode (input (snd (parse_opt sys ARGP_KEY_NO_ARGS arg word w))) =
              (if retcode (input w) < INT_MAX then retcode (input w) + 1
               else retcode (input w)))"
proof -
  have "fst (countZB fp 5) = 5"
    using assms(1,2) by (intro countZB_no_FF_cap_reached) simp_all
  with assms(3-5) show ?thesis
    by (auto simp: parse_opt_ARG_opened parse_opt_NO_ARGS produce_output_streams
          msg_file_corrupted_def msg_stdin_corrupted_def lu_small)
qed

text \<open>
  Claim C5: before each classification \<open>lower\<close> is clamped to \<open>upper\<close>, and in
  particular with \<open>upper = 5\<close> and \<open>lower = 10\<close> a source with exactly 5 zero bytes is
  classified corrupted. The clamp is there, but the code does not classify every such
  source as corrupted: the file \<open>ff5\<close> holds exactly 5 zero bytes after a byte 0xFF,
  where the counter stops (the defect of claim C3, \<open>char c\<close> compared with \<open>EOF\<close>). The
  run \<open>-v -u5 -l10 ff5\<close> clamps \<open>lower\<close> to 5, counts 0, writes no line and exits with
  code 0; so does the run \<open>-v -u5 -l10\<close> with the same bytes on standard input, of which
  only the first byte is read.
\<close>

theorem five_zero_bytes_after_0xFF_not_classified_corrupted:
  "fopen demo_os_ff ''ff5'' = Inr [0xFF, 0x00, 0x00, 0x00, 0x00, 0x00] \<and>
   zero_bytes [0xFF, 0x00, 0x00, 0x00, 0x00, 0x00] = 5 \<and>
   main demo_os_ff [Verbose, Upper ''5'' ''-u5'', Lower ''10'' ''-l10''] [''ff5''] demo_world =
     (0, \<lparr>input = \<lparr>verbosity = 1, upper = 5, lower = 5, retcode = 0\<rparr>,
           stdin = [], stdout = [], stderr = []\<rparr>) \<and>
   main demo_os_ff [Verbose, Upper ''5'' ''-u5'', Lower ''10'' ''-l10''] []
       (demo_world\<lparr>stdin := [0xFF, 0x00, 0x00, 0x00, 0x00, 0x00]\<rparr>) =
     (0, \<lparr>input = \<lparr>verbosity = 1, upper = 5, lower = 5, retcode = 0\<rparr>,
           stdin = [0x00, 0x00, 0x00, 0x00, 0x00], stdout = [], stderr = []\<rparr>)"
  by code_simp

text \<open>
  The output at verbosity 2 and above, on the count that \<open>countZB\<close> returned: a
  source that was read gives exactly one line, on standard output when the count is
  below the clamped \<open>lower\<close> (\<open>upper\<close> when \<open>lower > upper\<close> and \<open>upper \<noteq> 0\<close>, \<open>lower\<close>
  otherwise), on the error stream with the "seems corrupted" wording otherwise; the
  other stream is left as it was.
\<close>

lemma verbosity_two_routes_by_count:
  assumes "2 \<le> verbosity (input w)"
  shows "(fopen sys arg = Inr fp \<longrightarrow>
            (if fst (countZB fp (upper (input w)))
                  < (if upper (input w) < lower (input w) \<and> upper (input w) \<noteq> 0
                     then upper (input w) else lower (input w))
             then stdout (snd (parse_opt sys ARGP_KEY_ARG arg word w)) =
                    stdout w @ arg @ '': '' @ lu (fst (countZB fp (upper (input w)))) @
                      '' zero-bytes counted'' @ [CHR 0x0A] \<and>
                  stderr (snd (parse_opt sys ARGP_KEY_ARG arg word w)) = stderr w
             else stdout (snd (parse_opt sys ARGP_KEY_ARG arg word w)) = stdout w \<and>
                  stderr (snd (parse_opt sys ARGP_KEY_ARG arg word w)) =
                    stderr w @ arg @ '': seems corrupted, '' @
                      lu (fst (countZB fp (upper (input w)))) @
                      '' zero-bytes counted'' @ [CHR 0x0A])) \<and>
         (if fst (countZB (stdin w) (upper (input w)))
               < (if upper (input w) < lower (input w) \<and> upper (input w) \<noteq> 0
                  then upper (input w) else lower (input w))
          then stdout (snd (parse_opt sys ARGP_KEY_NO_ARGS arg word w)) =
                 stdout w @ lu (fst (countZB (stdin w) (upper (input w)))) @
                   '' zero-bytes in stdin counted'' @ [CHR 0x0A] \<and>
               stderr (snd (parse_opt sys ARGP_KEY_NO_ARGS arg word w)) = stderr w
          else stdout (snd (parse_opt sys ARGP_KEY_NO_ARGS arg word w)) = stdout w \<and>
               stderr (snd (parse_opt sys ARGP_KEY_NO_ARGS arg word w)) =
                 stderr w @ ''data in stdin seems corrupted, '' @
                   lu (fst (countZB (stdin w) (upper (input w)))) @
                   '' zero-bytes counted'' @ [CHR 0x0A])"
  using assms
  by (auto simp: parse_opt_ARG_opened parse_opt_NO_ARGS produce_output_streams
        msg_file_counted_def msg_file_corrupted_def msg_stdin_counted_def
        msg_stdin_corrupted_def)

text \<open>
  With verbosity 2 and the defaults \<open>lower = 1\<close>, \<open>upper = 0\<close>, a source without a
  byte 0xFF gives the line with the count 0 on standard output when it holds no zero
  byte, and the "seems corrupted" line with the count 3 on the error stream when it
  holds 3 zero bytes.
\<close>

lemma verbosity_two_default_lower_without_0xFF:
  assumes "255 \<notin> set fp"
    and "verbosity (input w) = 2" and "lower (input w) = 1" and "upper (input w) = 0"
  shows "(fopen sys arg = Inr fp \<and> zero_bytes fp = 0 \<longrightarrow>
            stdout (snd (parse_opt sys ARGP_KEY_ARG arg word w)) =
              stdout w @ arg @ '': 0 zero-bytes counted'' @ [CHR 0x0A] \<and>
            stderr (snd (parse_opt sys ARGP_KEY_ARG arg word w)) = stderr w) \<and>
         (fopen sys arg = Inr fp \<and> zero_bytes fp = 3 \<longrightarrow>
            stdout (snd (parse_opt sys ARGP_KEY_ARG arg word w)) = stdout w \<and>
            stderr (snd (parse_opt sys ARGP_KEY_ARG arg word w)) =
              stderr w @ arg @ '': seems corrupted, 3 zero-bytes counted'' @ [CHR 0x0A]) \<and>
         (stdin w = fp \<and> zero_bytes fp = 0 \<longrightarrow>
            stdout (snd (parse_opt sys ARGP_KEY_NO_ARGS arg word w)) =
              stdout w @ ''0 zero-bytes in stdin counted'' @ [CHR 0x0A] \<and>
            stderr (snd (parse_opt sys ARGP_KEY_NO_ARGS arg word w)) = stderr w) \<and>
         (stdin w = fp \<and> zero_bytes fp = 3 \<longrightarrow>
            stdout (snd (parse_opt sys ARGP_KEY_NO_ARGS arg word w)) = stdout w \<and>
            stderr (snd (parse_opt sys ARGP_KEY_NO_ARGS arg word w)) =
              stderr w @ ''data in stdin seems corrupted, 3 zero-bytes counted'' @ [CHR 0x0A])"
proof -
  have z0: "zero_bytes fp = 0 \<Longrightarrow> fst (countZB fp 0) = 0"
    by (rule countZB_no_zero_bytes)
  have z3: "zero_bytes fp = 3 \<Longrightarrow> fst (countZB fp 0) = 3"
    using countZB_no_FF_unlimited [OF assms(1)] by simp
  from z0 z3 assms(2-4) show ?thesis
    by (auto simp: parse_opt_ARG_opened parse_opt_NO_ARGS produce_output_streams
          msg_file_counted_def msg_file_corrupted_def msg_stdin_counted_def
          msg_stdin_corrupted_def lu_small)
qed

text \<open>
  Claim C9: at verbosity 2 and above a source gives one line, on standard output
  if its count of zero bytes is below the clamped \<open>lower\<close> and on the error stream with
  the "seems corrupted" wording otherwise; with verbosity 2 a file with 3 zero bytes
  gives the line on the error stream. The code does not do so for every such source:
  the file \<open>ff3\<close> holds 3 zero bytes after a byte 0xFF, where the counter stops (the
  defect of claim C3, \<open>char c\<close> compared with \<open>EOF\<close>). The run \<open>-v -v ff3\<close> writes
  \<open>ff3: 0 zero-bytes counted\<close> to standard output and nothing to the error stream. The
  run \<open>-v -v -u2 -l9\<close> with the same bytes on standard input clamps \<open>lower\<close> to 2 and
  writes \<open>0 zero-bytes in stdin counted\<close> to standard output, though the input holds 3
  zero bytes, which is not below 2.
\<close>

theorem three_zero_bytes_after_0xFF_reported_on_stdout:
  "fopen demo_os_ff ''ff3'' = Inr [0xFF, 0x00, 0x00, 0x00] \<and>
   zero_bytes [0xFF, 0x00, 0x00, 0x00] = 3 \<and>
   main demo_os_ff [Verbose, Verbose] [''ff3''] demo_world =
     (0, \<lparr>input = \<lparr>verbosity = 2, upper = 0, lower = 1, retcode = 0\<rparr>,
           stdin = [],
           stdout = ''ff3: 0 zero-bytes counted'' @ [CHR 0x0A],
           stderr = []\<rparr>) \<and>
   main demo_os_ff [Verbose, Verbose, Upper ''2'' ''-u2'', Lower ''9'' ''-l9''] []
       (demo_world\<lparr>stdin := [0xFF, 0x00, 0x00, 0x00]\<rparr>) =
     (0, \<lparr>input = \<lparr>verbosity = 2, upper = 2, lower = 2, retcode = 0\<rparr>,
           stdin = [0x00, 0x00, 0x00],
           stdout = ''0 zero-bytes in stdin counted'' @ [CHR 0x0A],
           stderr = []\<rparr>)"
  by code_simp

text \<open>
  Claim C10: with \<open>lower = 0\<close> and verbosity 1 or more, a source that opens and
  holds no zero byte gets the "seems corrupted" line on the error stream (0 \<ge> 0),
  and \<open>retcode\<close>, hence the exit code, is not incremented for it. The same holds for
  standard input.
\<close>

theorem lower_zero_reports_source_without_zero_bytes:
  assumes "lower (input w) = 0" and "1 \<le> verbosity (input w)"
  shows "(fopen sys arg = Inr fp \<and> zero_bytes fp = 0 \<longrightarrow>
            stderr (snd (parse_opt sys ARGP_KEY_ARG arg word w)) =
              stderr w @ arg @ '': seems corrupted, 0 zero-bytes counted'' @ [CHR 0x0A] \<and>
            stdout (snd (parse_opt sys ARGP_KEY_ARG arg word w)) = stdout w \<and>
            retcode (input (snd (parse_opt sys ARGP_KEY_ARG arg word w))) = retcode (input w)) \<and>
         (zero_bytes (stdin w) = 0 \<longrightarrow>
            stderr (snd (parse_opt sys ARGP_KEY_NO_ARGS arg word w)) =
              stderr w @ ''data in stdin seems corrupted, 0 zero-bytes counted'' @ [CHR 0x0A] \<and>
            stdout (snd (parse_opt sys ARGP_KEY_NO_ARGS arg word w)) = stdout w \<and>
            retcode (input (snd (parse_opt sys ARGP_KEY_NO_ARGS arg word w))) = retcode (input w))"
  using assms
  by (auto simp: parse_opt_ARG_opened parse_opt_NO_ARGS produce_output_streams
        countZB_no_zero_bytes msg_file_corrupted_def msg_stdin_corrupted_def lu_small)

text \<open>
  The theorem of claim C10 at verbosity 1 and \<open>lower = 0\<close>: the file \<open>clean\<close> and the
  empty standard input.
\<close>

theorem lower_zero_reports_source_without_zero_bytes_witness:
  "(let w = demo_world\<lparr>input := \<lparr>verbosity = 1, upper = 0, lower = 0, retcode = 0\<rparr>\<rparr>
    in lower (input w) = 0 \<and> 1 \<le> verbosity (input w) \<and>
       fopen demo_os ''clean'' = Inr [0x61, 0x62, 0x0A] \<and>
       zero_bytes [0x61, 0x62, 0x0A] = 0 \<and> zero_bytes (stdin w) = 0 \<and>
       stderr (snd (parse_opt demo_os ARGP_KEY_ARG ''clean'' [] w)) =
         ''clean: seems corrupted, 0 zero-bytes counted'' @ [CHR 0x0A] \<and>
       retcode (input (snd (parse_opt demo_os ARGP_KEY_ARG ''clean'' [] w))) = 0 \<and>
       stderr (snd (parse_opt demo_os ARGP_KEY_NO_ARGS [] [] w)) =
         ''data in stdin seems corrupted, 0 zero-bytes counted'' @ [CHR 0x0A] \<and>
       retcode (input (snd (parse_opt demo_os ARGP_KEY_NO_ARGS [] [] w))) = 0)"
  using lower_zero_reports_source_without_zero_bytes
    [where sys = demo_os and arg = "''clean''" and fp = "[0x61, 0x62, 0x0A]" and word = "[]"
       and w = "demo_world\<lparr>input := \<lparr>verbosity = 1, upper = 0, lower = 0, retcode = 0\<rparr>\<rparr>"]
    lower_zero_reports_source_without_zero_bytes
    [where sys = demo_os and arg = "[]" and fp = "[]" and word = "[]"
       and w = "demo_world\<lparr>input := \<lparr>verbosity = 1, upper = 0, lower = 0, retcode = 0\<rparr>\<rparr>"]
  by (simp add: demo_simps)

section \<open>Files that do not open\<close>

text \<open>
  Claim C8: a file name that \<open>fopen\<close> refuses is not an error of the parser:
  \<open>parse_opt\<close> writes the name and \<open>strerror (errno)\<close> to the error stream, returns 0
  and changes nothing else, so the run configuration with \<open>retcode\<close> is the one before,
  and the loop over the file names goes on with the remaining names.
\<close>

theorem open_failure_is_not_fatal:
  assumes "fopen sys arg = Inl errno"
  shows "parse_opt sys ARGP_KEY_ARG arg word w =
           (0, w\<lparr>stderr := stderr w @ arg @ '': '' @ strerror sys errno @ [CHR 0x0A]\<rparr>) \<and>
         input (snd (parse_opt sys ARGP_KEY_ARG arg word w)) = input w \<and>
         parse_args sys (arg # files) w =
           parse_args sys files
             (w\<lparr>stderr := stderr w @ arg @ '': '' @ strerror sys errno @ [CHR 0x0A]\<rparr>)"
  using assms by (simp add: parse_opt_ARG_failed msg_open_failed_def)

text \<open>
  The theorem of claim C8 at the name \<open>missing\<close>, followed by the file \<open>one\<close>.
\<close>

theorem open_failure_is_not_fatal_witness:
  "fopen demo_os ''missing'' = Inl 2 \<and>
   parse_opt demo_os ARGP_KEY_ARG ''missing'' [] demo_world =
     (0, demo_world\<lparr>stderr := ''missing: No such file or directory'' @ [CHR 0x0A]\<rparr>) \<and>
   parse_args demo_os [''missing'', ''one''] demo_world =
     parse_args demo_os [''one'']
       (demo_world\<lparr>stderr := ''missing: No such file or directory'' @ [CHR 0x0A]\<rparr>)"
proof -
  have h: "fopen demo_os ''missing'' = Inl 2"
    by (simp add: demo_os_def)
  from open_failure_is_not_fatal [OF h, of "[]" demo_world "[''one'']"] h show ?thesis
    by (simp add: demo_simps)
qed

section \<open>Values of the limit options\<close>

text \<open>
  Claim C7: for \<open>-u\<close> and for \<open>-l\<close>, \<open>parse_opt\<close> returns \<open>EINVAL\<close> if and only if
  \<open>strtoul\<close> with base 0 leaves a part of the value unconverted. In that case the
  diagnostic that quotes the command-line word is written to the error stream and the
  loop over the options ends there with that result; otherwise \<open>parse_opt\<close> returns 0,
  writes nothing, and the field holds the value \<open>strtoul\<close> returned.
\<close>

theorem limit_value_rejected_iff_tail_left:
  "(fst (parse_opt sys (of_char (CHR ''u'')) arg word w) = EINVAL
      \<longleftrightarrow> snd (strtoul arg) \<noteq> []) \<and>
   (fst (parse_opt sys (of_char (CHR ''l'')) arg word w) = EINVAL
      \<longleftrightarrow> snd (strtoul arg) \<noteq> []) \<and>
   (snd (strtoul arg) \<noteq> [] \<longrightarrow>
      parse_opt sys (of_char (CHR ''u'')) arg word w =
        (EINVAL, w\<lparr>input := (input w)\<lparr>upper := fst (strtoul arg)\<rparr>,
                   stderr := stderr w @ [CHR 0x27] @ word @ [CHR 0x27] @
                             '' is not a non-negative integer'' @ [CHR 0x0A]\<rparr>) \<and>
      parse_opt sys (of_char (CHR ''l'')) arg word w =
        (EINVAL, w\<lparr>input := (input w)\<lparr>lower := fst (strtoul arg)\<rparr>,
                   stderr := stderr w @ [CHR 0x27] @ word @ [CHR 0x27] @
                             '' is not a non-negative integer'' @ [CHR 0x0A]\<rparr>) \<and>
      parse_options sys (Upper arg word # opts) w =
        parse_opt sys (of_char (CHR ''u'')) arg word w \<and>
      parse_options sys (Lower arg word # opts) w =
        parse_opt sys (of_char (CHR ''l'')) arg word w) \<and>
   (snd (strtoul arg) = [] \<longrightarrow>
      parse_opt sys (of_char (CHR ''u'')) arg word w =
        (0, w\<lparr>input := (input w)\<lparr>upper := fst (strtoul arg)\<rparr>\<rparr>) \<and>
      parse_opt sys (of_char (CHR ''l'')) arg word w =
        (0, w\<lparr>input := (input w)\<lparr>lower := fst (strtoul arg)\<rparr>\<rparr>))"
  by (simp add: parse_opt_u parse_opt_l EINVAL_def msg_not_integer_def)

text \<open>
  The theorem of claim C7 at \<open>-u12ab\<close>, which is rejected, and at \<open>--lower=0x1F\<close>,
  which sets \<open>lower\<close> to 31.
\<close>

theorem limit_value_rejected_iff_tail_left_witness:
  "snd (strtoul ''12ab'') \<noteq> [] \<and> snd (strtoul ''0x1F'') = [] \<and>
   parse_opt demo_os (of_char (CHR ''u'')) ''12ab'' ''-u12ab'' demo_world =
     (EINVAL, demo_world\<lparr>input := (input demo_world)\<lparr>upper := 12\<rparr>,
                stderr := [CHR 0x27] @ ''-u12ab'' @ [CHR 0x27] @
                          '' is not a non-negative integer'' @ [CHR 0x0A]\<rparr>) \<and>
   parse_options demo_os [Upper ''12ab'' ''-u12ab'', Verbose] demo_world =
     parse_opt demo_os (of_char (CHR ''u'')) ''12ab'' ''-u12ab'' demo_world \<and>
   parse_opt demo_os (of_char (CHR ''l'')) ''0x1F'' ''--lower=0x1F'' demo_world =
     (0, demo_world\<lparr>input := (input demo_world)\<lparr>lower := 31\<rparr>\<rparr>)"
  using limit_value_rejected_iff_tail_left
    [where sys = demo_os and arg = "''12ab''" and word = "''-u12ab''" and w = demo_world
       and opts = "[Verbose]"]
    limit_value_rejected_iff_tail_left
    [where sys = demo_os and arg = "''0x1F''" and word = "''--lower=0x1F''" and w = demo_world
       and opts = "[]"]
  by (simp add: strtoul_examples EINVAL_def demo_world_def)

lemma parse_opt_option_sys:
  "parse_opt sys (opt_key opt) (opt_arg opt) (opt_word opt) w =
   parse_opt sys' (opt_key opt) (opt_arg opt) (opt_word opt) w"
  by (cases opt) (simp_all add: parse_opt_v parse_opt_u parse_opt_l)

lemma parse_options_sys: "parse_options sys opts w = parse_options sys' opts w"
proof (induction opts arbitrary: w)
  case Nil
  show ?case by simp
next
  case (Cons opt opts)
  show ?case
    using parse_opt_option_sys [of sys opt w sys'] Cons.IH
    by (simp split: prod.splits)
qed

lemma parse_opt_accepted:
  assumes "\<not> rejected opt"
  obtains w' where "parse_opt sys (opt_key opt) (opt_arg opt) (opt_word opt) w = (0, w')"
    and "stdin w' = stdin w" and "stdout w' = stdout w" and "stderr w' = stderr w"
    and "retcode (input w') = retcode (input w)"
  using assms by (cases opt) (auto simp: parse_opt_v parse_opt_u parse_opt_l)

lemma parse_opt_rejected:
  assumes "rejected opt"
  obtains w' where "parse_opt sys (opt_key opt) (opt_arg opt) (opt_word opt) w = (EINVAL, w')"
    and "stdin w' = stdin w" and "stdout w' = stdout w"
    and "stderr w' = stderr w @ msg_not_integer (opt_word opt)"
    and "retcode (input w') = retcode (input w)"
  using assms by (cases opt) (auto simp: parse_opt_v parse_opt_u parse_opt_l)

lemma parse_options_rejected:
  assumes "find rejected opts = Some bad"
  shows "\<exists>w'. parse_options sys opts w = (EINVAL, w') \<and> stdin w' = stdin w \<and>
              stdout w' = stdout w \<and> stderr w' = stderr w @ msg_not_integer (opt_word bad) \<and>
              retcode (input w') = retcode (input w)"
  using assms
proof (induction opts arbitrary: w)
  case Nil
  then show ?case by simp
next
  case (Cons opt opts)
  show ?case
  proof (cases "rejected opt")
    case True
    with Cons.prems have bad: "bad = opt" by simp
    from True obtain w' where
      "parse_opt sys (opt_key opt) (opt_arg opt) (opt_word opt) w = (EINVAL, w')"
      "stdin w' = stdin w" "stdout w' = stdout w"
      "stderr w' = stderr w @ msg_not_integer (opt_word opt)"
      "retcode (input w') = retcode (input w)"
      by (rule parse_opt_rejected)
    then show ?thesis
      by (simp add: bad EINVAL_def)
  next
    case False
    with Cons.prems have tl: "find rejected opts = Some bad" by simp
    from False obtain w1 where w1:
      "parse_opt sys (opt_key opt) (opt_arg opt) (opt_word opt) w = (0, w1)"
      "stdin w1 = stdin w" "stdout w1 = stdout w" "stderr w1 = stderr w"
      "retcode (input w1) = retcode (input w)"
      by (rule parse_opt_accepted)
    from Cons.IH [OF tl, of w1] w1 show ?thesis
      by simp
  qed
qed

lemma argp_parse_rejected:
  assumes "find rejected opts = Some bad"
  shows "\<exists>w1. parse_options sys opts
                (w\<lparr>input := (input w)\<lparr>verbosity := 0, upper := 0, lower := 1, retcode := 0\<rparr>\<rparr>)
                = (EINVAL, w1) \<and>
              argp_parse sys opts files w = (EINVAL, w1\<lparr>stderr := stderr w1 @ msg_terminated\<rparr>) \<and>
              stdin w1 = stdin w \<and> stdout w1 = stdout w \<and>
              stderr w1 = stderr w @ msg_not_integer (opt_word bad) \<and>
              retcode (input w1) = 0"
proof -
  define w0 where
    "w0 = w\<lparr>input := (input w)\<lparr>verbosity := 0, upper := 0, lower := 1, retcode := 0\<rparr>\<rparr>"
  from parse_options_rejected [OF assms, of sys w0] obtain w1 where w1:
    "parse_options sys opts w0 = (EINVAL, w1)" "stdin w1 = stdin w0" "stdout w1 = stdout w0"
    "stderr w1 = stderr w0 @ msg_not_integer (opt_word bad)"
    "retcode (input w1) = retcode (input w0)"
    by blast
  have "argp_parse sys opts files w = (EINVAL, w1\<lparr>stderr := stderr w1 @ msg_terminated\<rparr>)"
    using w1(1)
    by (simp add: argp_parse_def parse_opt_INIT parse_opt_ERROR parse_opt_unhandled
          w0_def [symmetric] EINVAL_def)
  with w1 show ?thesis
    by (simp add: w0_def)
qed

text \<open>
  Claim C6 as stated: a value of \<open>-u\<close> or \<open>-l\<close> that is not a valid non-negative
  integer literal ends the program with a usage error and a non-zero exit status before
  any file is processed. The exit status is not as stated: \<open>main\<close> drops the result of
  \<open>argp_parse\<close> and returns \<open>retcode\<close>, which is 0, so \<open>--upper=abc one\<close> exits with
  status 0. And the empty value, which is no integer literal, is accepted: \<open>--upper=\<close>
  followed by the file \<open>one\<close> writes no diagnostic and counts the file.
\<close>

theorem invalid_limit_value_exit_status_zero:
  "fst (main demo_os [Upper ''abc'' ''--upper=abc''] [''one''] demo_world) = 0 \<and>
   fst (main demo_os [Upper [] ''--upper=''] [''one''] demo_world) = 1 \<and>
   stderr (snd (main demo_os [Upper [] ''--upper=''] [''one''] demo_world)) = []"
  by code_simp

text \<open>
  Claim C6, amended: when the value of some \<open>-u\<close> or \<open>-l\<close> option is not converted
  to its end by \<open>strtoul\<close>, \<open>argp_parse\<close> fails with \<open>EINVAL\<close> at the first such option:
  the error stream gets the diagnostic that quotes its command-line word and then the
  line of \<open>ARGP_KEY_ERROR\<close>, standard input is not read, nothing is written to standard
  output, the exit status is \<open>retcode\<close> = 0, and no file is touched: the run is the same
  for any other file names and any other file system.
\<close>

theorem rejected_limit_value_ends_parsing_before_any_source:
  assumes "find rejected opts = Some bad"
  shows "fst (argp_parse sys opts files w) = EINVAL \<and>
         fst (main sys opts files w) = 0 \<and>
         stdin (snd (main sys opts files w)) = stdin w \<and>
         stdout (snd (main sys opts files w)) = stdout w \<and>
         stderr (snd (main sys opts files w)) =
           stderr w @ msg_not_integer (opt_word bad) @ msg_terminated \<and>
         main sys' opts files' w = main sys opts files w"
proof -
  define w0 where
    "w0 = w\<lparr>input := (input w)\<lparr>verbosity := 0, upper := 0, lower := 1, retcode := 0\<rparr>\<rparr>"
  from argp_parse_rejected [OF assms, of sys w files] obtain w1 where w1:
    "parse_options sys opts w0 = (EINVAL, w1)"
    "argp_parse sys opts files w = (EINVAL, w1\<lparr>stderr := stderr w1 @ msg_terminated\<rparr>)"
    "stdin w1 = stdin w" "stdout w1 = stdout w"
    "stderr w1 = stderr w @ msg_not_integer (opt_word bad)" "retcode (input w1) = 0"
    unfolding w0_def by blast
  from argp_parse_rejected [OF assms, of sys' w files'] obtain w2 where w2:
    "parse_options sys' opts w0 = (EINVAL, w2)"
    "argp_parse sys' opts files' w = (EINVAL, w2\<lparr>stderr := stderr w2 @ msg_terminated\<rparr>)"
    unfolding w0_def by blast
  from w1(1) w2(1) parse_options_sys [of sys opts w0 sys'] have "w2 = w1"
    by simp
  with w1 w2 show ?thesis
    by (simp add: main_def)
qed

text \<open>
  The theorem of claim C6 at \<open>-v --upper=abc one\<close>.
\<close>

theorem rejected_limit_value_ends_parsing_before_any_source_witness:
  "find rejected [Verbose, Upper ''abc'' ''--upper=abc''] = Some (Upper ''abc'' ''--upper=abc'') \<and>
   fst (argp_parse demo_os [Verbose, Upper ''abc'' ''--upper=abc''] [''one''] demo_world) = EINVAL \<and>
   fst (main demo_os [Verbose, Upper ''abc'' ''--upper=abc''] [''one''] demo_world) = 0 \<and>
   stdout (snd (main demo_os [Verbose, Upper ''abc'' ''--upper=abc''] [''one''] demo_world)) = [] \<and>
   stderr (snd (main demo_os [Verbose, Upper ''abc'' ''--upper=abc''] [''one''] demo_world)) =
     msg_not_integer ''--upper=abc'' @ msg_terminated"
proof -
  have h: "find rejected [Verbose, Upper ''abc'' ''--upper=abc'']
             = Some (Upper ''abc'' ''--upper=abc'')"
    by (simp add: strtoul_def isspace_def digit_val_def)
  from rejected_limit_value_ends_parsing_before_any_source
         [OF h, of demo_os "[''one'']" demo_world] h
  show ?thesis
    by (simp add: demo_world_def)
qed

section \<open>The exit code\<close>

text \<open>
  Claim C1: the exit code is the number of sources whose count of zero bytes is at
  least the effective \<open>lower\<close>, as the program's own help text says ("the number of
  files containing at least NUMBER2 zero-bytes"). The code counts the sources whose
  count is not 0 instead: with \<open>-l3\<close> and the file \<open>one\<close>, which holds one zero byte,
  the count 1 is below the effective \<open>lower = 3\<close> (\<open>upper = 0\<close>, no clamping), and the
  exit code is 1, not 0.
\<close>

theorem exit_code_counts_sources_below_lower:
  "fst (main demo_os [Lower ''3'' ''-l3''] [''one''] demo_world) = 1 \<and>
   fopen demo_os ''one'' = Inr [0x00] \<and>
   fst (countZB [0x00] 0) = 1 \<and>
   lower (input (snd (main demo_os [Lower ''3'' ''-l3''] [''one''] demo_world))) = 3 \<and>
   upper (input (snd (main demo_os [Lower ''3'' ''-l3''] [''one''] demo_world))) = 0"
  by code_simp

end
